theory Spec2Isabelle
  imports Main "HOL-Library.Sublist"
begin

section \<open>The PyDigger crawler (Pydigger\_current.py)\<close>

text \<open>
  The crawler reads a listing page, follows every listed project to its metadata page,
  extracts hosting links from it, keeps the links whose hosting page mentions
  \<^verbatim>\<open>setup.py\<close> and does not mention \<^verbatim>\<open>pyproject.toml\<close>, removes the links already
  present in the log file, and appends the rest to the log file.

  Modelling decisions.
  \<^item> A Python \<^verbatim>\<open>str\<close> is a \<^typ>\<open>string\<close>; the 256 values of \<^typ>\<open>char\<close> stand for the code
    points 0..255.
  \<^item> \<^verbatim>\<open>requests.get\<close> is a function from the URL to the response, the same during a
    run: the remote dataset. A response has the two fields the program reads. The
    program takes a fetch for failed when the status is not 200. A request that raises
    instead of answering (no connection) is outside the model; the program does not
    catch it.
  \<^item> The file system is a map from file names to their content; a missing file is
    \<open>None\<close>. Files are opened in text mode on a POSIX system: reading translates line
    endings, writing does not.
  \<^item> \<^verbatim>\<open>str(datetime.datetime.utcnow())\<close> is an argument of \<open>main\<close>.
  \<^item> \<^verbatim>\<open>print\<close> is left out; \<open>main\<close> returns the list it prints and writes, with the
    new file system.
\<close>

subsection \<open>Characters and character classes\<close>

definition code_point :: "char \<Rightarrow> nat" where
  "code_point c = of_char c"

abbreviation LF :: char where
  "LF \<equiv> CHR 0x0A"

abbreviation CR :: char where
  "CR \<equiv> CHR 0x0D"

text \<open>The characters \<^verbatim>\<open>str.split()\<close> takes for whitespace, among the code points 0..255.\<close>

definition isspace :: "char \<Rightarrow> bool" where
  "isspace c =
     (let n = code_point c
      in (9 \<le> n \<and> n \<le> 13) \<or> (28 \<le> n \<and> n \<le> 32) \<or> n = 133 \<or> n = 160)"

definition ascii_letter :: "char \<Rightarrow> bool" where
  "ascii_letter c =
     (let n = code_point c in (97 \<le> n \<and> n \<le> 122) \<or> (65 \<le> n \<and> n \<le> 90))"

definition ascii_digit :: "char \<Rightarrow> bool" where
  "ascii_digit c = (let n = code_point c in 48 \<le> n \<and> n \<le> 57)"

text \<open>The class \<^verbatim>\<open>[-_a-zA-Z/.d]\<close>, member by member as the pattern lists them.\<close>

definition git_class :: "char \<Rightarrow> bool" where
  "git_class c =
     (c = CHR ''-'' \<or> c = CHR ''_'' \<or> ascii_letter c \<or> c = CHR ''/'' \<or> c = CHR ''.''
      \<or> c = CHR ''d'')"

text \<open>
  The class \<^verbatim>\<open>[\w-]\<close> of a \<^verbatim>\<open>str\<close> pattern: letters, digits, the underscore, the
  alphanumeric code points of 128..255, and the hyphen.
\<close>

definition word_char :: "char \<Rightarrow> bool" where
  "word_char c =
     (let n = code_point c
      in ascii_letter c \<or> ascii_digit c \<or> n = 95 \<or> n = 170 \<or> n = 178 \<or> n = 179
         \<or> n = 181 \<or> n = 185 \<or> n = 186 \<or> (188 \<le> n \<and> n \<le> 190)
         \<or> (192 \<le> n \<and> n \<le> 214) \<or> (216 \<le> n \<and> n \<le> 246) \<or> 248 \<le> n)"

definition pypi_class :: "char \<Rightarrow> bool" where
  "pypi_class c = (word_char c \<or> c = CHR ''-'')"

definition not_brace :: "char \<Rightarrow> bool" where
  "not_brace c = (c \<noteq> CHR ''}'')"

definition no_char :: "char \<Rightarrow> bool" where
  "no_char c = False"

subsection \<open>Regular expressions of the program\<close>

text \<open>
  Every pattern of the program is a literal followed by a greedy repetition of one
  character class, so a matcher is the literal, the class and the least number of
  repetitions. \<open>match_at\<close> gives the length of the match that starts at the head of the
  text, if there is one.
\<close>

type_synonym matcher = "string \<Rightarrow> nat option"

definition match_at :: "string \<Rightarrow> (char \<Rightarrow> bool) \<Rightarrow> nat \<Rightarrow> matcher" where
  "match_at lit cls least s =
     (if prefix lit s
      then (let run = takeWhile cls (drop (length lit) s)
            in if least \<le> length run then Some (length lit + length run) else None)
      else None)"

text \<open>
  \<^verbatim>\<open>finditer\<close>: the matched texts from left to right, the search resuming where the
  last match ended. No pattern of the program matches the empty text.
\<close>

fun finditer :: "matcher \<Rightarrow> string \<Rightarrow> string list" where
  "finditer m [] = []"
| "finditer m (c # cs) =
     (case m (c # cs) of
        None \<Rightarrow> finditer m cs
      | Some n \<Rightarrow>
          if n = 0 then finditer m cs
          else take n (c # cs) # finditer m (drop (n - 1) cs))"

text \<open>\<^verbatim>\<open>findall\<close> of a pattern whose one group starts \<open>k\<close> characters into the match.\<close>

definition findall_group :: "nat \<Rightarrow> matcher \<Rightarrow> string \<Rightarrow> string list" where
  "findall_group k m s = map (drop k) (finditer m s)"

definition quot :: string where
  "quot = ''&#34;''"

definition git_prefix :: string where
  "git_prefix = ''https://git''"

text \<open>\<^verbatim>\<open><td><a href="/pypi/([\w-]+)\<close>\<close>

definition pypi_lit :: string where
  "pypi_lit = ''<td><a href='' @ [CHR 0x22] @ ''/pypi/''"

definition pypi_pattern :: matcher where
  "pypi_pattern = match_at pypi_lit pypi_class 1"

text \<open>\<^verbatim>\<open>project_urls[^}]*\<close>\<close>

definition get_json_pattern :: matcher where
  "get_json_pattern = match_at ''project_urls'' not_brace 0"

text \<open>\<^verbatim>\<open>Homepage&#34;: &#34;(https://git[-_a-zA-Z/.d]+)\<close> and the same for Repository.\<close>

definition key_lit :: "string \<Rightarrow> string" where
  "key_lit key = key @ quot @ '': '' @ quot"

definition key_pattern :: "string \<Rightarrow> matcher" where
  "key_pattern key = match_at (key_lit key @ git_prefix) git_class 1"

definition findall_key :: "string \<Rightarrow> string \<Rightarrow> string list" where
  "findall_key key s = findall_group (length (key_lit key)) (key_pattern key) s"

text \<open>\<^verbatim>\<open>setup\.py\<close> and \<^verbatim>\<open>pyproject\.toml\<close>\<close>

definition literal_pattern :: "string \<Rightarrow> matcher" where
  "literal_pattern lit = match_at lit no_char 0"

subsection \<open>Strings\<close>

text \<open>\<^verbatim>\<open>sep.join(xs)\<close>\<close>

fun join :: "string \<Rightarrow> string list \<Rightarrow> string" where
  "join sep [] = []"
| "join sep [x] = x"
| "join sep (x # y # ys) = x @ sep @ join sep (y # ys)"

text \<open>
  \<^verbatim>\<open>s.split()\<close>: the maximal runs of characters that are not whitespace. \<open>w\<close> is the
  run read so far.
\<close>

fun split_from :: "string \<Rightarrow> string \<Rightarrow> string list" where
  "split_from w [] = (if w = [] then [] else [w])"
| "split_from w (c # cs) =
     (if isspace c
      then (if w = [] then split_from [] cs else w # split_from [] cs)
      else split_from (w @ [c]) cs)"

definition split :: "string \<Rightarrow> string list" where
  "split s = split_from [] s"

subsection \<open>The remote dataset and the file system\<close>

record response =
  status_code :: int
  page_text :: string

type_synonym fetcher = "string \<Rightarrow> response"

datatype py_error = TypeError | FileNotFoundError

type_synonym files = "string \<rightharpoonup> string"

text \<open>Reading in text mode turns \<^verbatim>\<open>\r\n\<close> and \<^verbatim>\<open>\r\<close> into \<^verbatim>\<open>\n\<close>.\<close>

fun universal_newlines :: "string \<Rightarrow> string" where
  "universal_newlines [] = []"
| "universal_newlines [c] = (if c = CR then [LF] else [c])"
| "universal_newlines (c # d # ds) =
     (if c = CR
      then (if d = LF then LF # universal_newlines ds else LF # universal_newlines (d # ds))
      else c # universal_newlines (d # ds))"

text \<open>\<^verbatim>\<open>with open(name, 'r') as f: in_str = f.read()\<close>\<close>

definition read_file :: "files \<Rightarrow> string \<Rightarrow> py_error + string" where
  "read_file fs name =
     (case fs name of
        None \<Rightarrow> Inl FileNotFoundError
      | Some raw \<Rightarrow> Inr (universal_newlines raw))"

text \<open>\<^verbatim>\<open>with open(name, 'a') as f: f.write(s)\<close>; the mode creates a missing file.\<close>

definition append_file :: "files \<Rightarrow> string \<Rightarrow> string \<Rightarrow> files" where
  "append_file fs name s =
     fs(name \<mapsto> (case fs name of None \<Rightarrow> s | Some raw \<Rightarrow> raw @ s))"

subsection \<open>get\_link\_from\_pdig\<close>

text \<open>The function returns a list, or \<^verbatim>\<open>None\<close> by its bare \<^verbatim>\<open>return\<close>.\<close>

datatype py_value = PyNone | PyList "string list"

fun pdig_loop :: "string list \<Rightarrow> string list \<Rightarrow> string list" where
  "pdig_loop [] json_link_list = json_link_list"
| "pdig_loop (link # matches) json_link_list =
     pdig_loop matches (json_link_list @ [''https://pydigger.com/pypi/'' @ link])"

definition get_link_from_pdig :: "fetcher \<Rightarrow> string \<Rightarrow> py_value" where
  "get_link_from_pdig fetch page =
     (let response = fetch page
      in if status_code response \<noteq> 200 then PyNone
         else PyList (pdig_loop
                (findall_group (length pypi_lit) pypi_pattern (page_text response)) []))"

subsection \<open>get\_link\_from\_json\<close>

text \<open>The body of \<^verbatim>\<open>for match in matches\<close>, on the matched chunk.\<close>

definition json_step :: "string \<Rightarrow> string list \<Rightarrow> string list" where
  "json_step git_chunk git_list =
     (let home_pattern = findall_key ''Homepage'' git_chunk;
          rep_pattern = findall_key ''Repository'' git_chunk;
          git_list1 = (if home_pattern \<noteq> [] then git_list @ home_pattern else git_list)
      in if rep_pattern \<noteq> [] \<and> rep_pattern \<noteq> home_pattern
         then git_list1 @ rep_pattern else git_list1)"

fun json_loop :: "string list \<Rightarrow> string list \<Rightarrow> string list" where
  "json_loop [] git_list = git_list"
| "json_loop (git_chunk # matches) git_list = json_loop matches (json_step git_chunk git_list)"

definition get_link_from_json :: "fetcher \<Rightarrow> string \<Rightarrow> string list" where
  "get_link_from_json fetch json_site =
     (let git_response = fetch json_site
      in if status_code git_response \<noteq> 200 then []
         else json_loop (finditer get_json_pattern (page_text git_response)) [])"

subsection \<open>check\_setup\_py\_in\_git and filter\_toml\_in\_git\<close>

fun setup_loop :: "fetcher \<Rightarrow> string list \<Rightarrow> string list \<Rightarrow> string list" where
  "setup_loop fetch [] filtered_links = filtered_links"
| "setup_loop fetch (link # rest) filtered_links =
     (let response = fetch link
      in if status_code response \<noteq> 200 then setup_loop fetch rest filtered_links
         else (let matches = finditer (literal_pattern ''setup.py'') (page_text response)
               in if matches \<noteq> [] then setup_loop fetch rest (filtered_links @ [link])
                  else setup_loop fetch rest filtered_links))"

definition check_setup_py_in_git :: "fetcher \<Rightarrow> string list \<Rightarrow> string list" where
  "check_setup_py_in_git fetch unfiltered_links = setup_loop fetch unfiltered_links []"

fun toml_loop :: "fetcher \<Rightarrow> string list \<Rightarrow> string list \<Rightarrow> string list" where
  "toml_loop fetch [] filtered_links = filtered_links"
| "toml_loop fetch (link # rest) filtered_links =
     (let response = fetch link
      in if status_code response \<noteq> 200 then toml_loop fetch rest filtered_links
         else (let matches = finditer (literal_pattern ''pyproject.toml'') (page_text response)
               in if \<not> matches \<noteq> [] then toml_loop fetch rest (filtered_links @ [link])
                  else toml_loop fetch rest filtered_links))"

definition filter_toml_in_git :: "fetcher \<Rightarrow> string list \<Rightarrow> string list" where
  "filter_toml_in_git fetch unfiltered_links = toml_loop fetch unfiltered_links []"

subsection \<open>filterout\_logged\<close>

fun logged_loop :: "string \<Rightarrow> string list \<Rightarrow> string list \<Rightarrow> string list" where
  "logged_loop in_str [] filtered_list = filtered_list"
| "logged_loop in_str (candidate # rest) filtered_list =
     (if candidate \<notin> set (split in_str)
      then logged_loop in_str rest (filtered_list @ [candidate])
      else logged_loop in_str rest filtered_list)"

definition filterout_logged :: "files \<Rightarrow> string \<Rightarrow> string list \<Rightarrow> py_error + string list" where
  "filterout_logged fs current_log_file_name candidate_list =
     (case read_file fs current_log_file_name of
        Inl e \<Rightarrow> Inl e
      | Inr in_str \<Rightarrow> Inr (logged_loop in_str candidate_list []))"

subsection \<open>main\<close>

text \<open>The link is the f-string with \<^verbatim>\<open>NUMBER_OF_ENTRIES = 20\<close> filled in.\<close>

definition pydigger_link :: string where
  "pydigger_link = ''https://pydigger.com/search/has-vcs-no-author?q=&page=1&limit=20''"

definition log_file_name :: string where
  "log_file_name = ''git_log.txt''"

fun scan_loop :: "fetcher \<Rightarrow> string list \<Rightarrow> string list \<Rightarrow> string list" where
  "scan_loop fetch [] git_link_list = git_link_list"
| "scan_loop fetch (link # rest) git_link_list =
     (let new_link_to_github = get_link_from_json fetch link
      in if new_link_to_github \<noteq> []
         then scan_loop fetch rest (git_link_list @ new_link_to_github)
         else scan_loop fetch rest git_link_list)"

definition output_lines :: "string \<Rightarrow> string list \<Rightarrow> string" where
  "output_lines utc_now gits_checked_list =
     [LF, LF, LF, LF] @ ''Results '' @ utc_now @ '' :'' @ [LF]
       @ join [LF] gits_checked_list @ [LF]"

definition main :: "fetcher \<Rightarrow> string \<Rightarrow> files \<Rightarrow> py_error + string list \<times> files" where
  "main fetch utc_now fs =
     (case get_link_from_pdig fetch pydigger_link of
        PyNone \<Rightarrow> Inl TypeError
      | PyList pdig_link_list \<Rightarrow>
          (let git_link_list = scan_loop fetch pdig_link_list [];
               gits_checked_list1 = check_setup_py_in_git fetch git_link_list;
               gits_checked_list2 = filter_toml_in_git fetch gits_checked_list1
           in case filterout_logged fs log_file_name gits_checked_list2 of
                Inl e \<Rightarrow> Inl e
              | Inr gits_checked_list \<Rightarrow>
                  Inr (gits_checked_list,
                       append_file fs log_file_name (output_lines utc_now gits_checked_list))))"

subsection \<open>Notions the properties are stated with\<close>

text \<open>
  Following the spec's words: a token of a blob is a maximal run of characters that are
  not whitespace, that is a non-empty piece without whitespace that has whitespace or
  an end of the blob on either side.
\<close>

definition is_token :: "string \<Rightarrow> string \<Rightarrow> bool" where
  "is_token blob t =
     (t \<noteq> [] \<and> \<not> list_ex isspace t
      \<and> (\<exists>pre post. blob = pre @ t @ post
            \<and> (pre = [] \<or> isspace (last pre))
            \<and> (post = [] \<or> isspace (hd post))))"

text \<open>Following the spec's words: the hosting-URL shape.\<close>

definition hosting_shape :: "string \<Rightarrow> bool" where
  "hosting_shape l = (\<exists>rest. l = git_prefix @ rest \<and> rest \<noteq> [] \<and> list_all git_class rest)"

text \<open>The first match of \<open>get_json_pattern\<close> in a page, if there is one.\<close>

definition first_block :: "string \<Rightarrow> string option" where
  "first_block s = (case finditer get_json_pattern s of [] \<Rightarrow> None | b # _ \<Rightarrow> Some b)"

text \<open>The list \<open>main\<close> hands to \<open>filterout_logged\<close>, when the listing fetch succeeds.\<close>

definition candidates :: "fetcher \<Rightarrow> string list" where
  "candidates fetch =
     (case get_link_from_pdig fetch pydigger_link of
        PyNone \<Rightarrow> []
      | PyList pdig_link_list \<Rightarrow>
          filter_toml_in_git fetch
            (check_setup_py_in_git fetch (scan_loop fetch pdig_link_list [])))"

subsection \<open>Sample inputs\<close>

text \<open>
  Three hosting pages: A mentions \<^verbatim>\<open>setup.py\<close>, the fetch of B fails, C mentions
  both file names. Every other page is served without either name.
\<close>

definition abc_fetch :: fetcher where
  "abc_fetch u =
     (if u = ''https://github.com/a/A''
      then \<lparr>status_code = 200, page_text = ''<a>setup.py</a>''\<rparr>
      else if u = ''https://github.com/b/B''
      then \<lparr>status_code = 404, page_text = ''setup.py''\<rparr>
      else if u = ''https://github.com/c/C''
      then \<lparr>status_code = 200, page_text = ''setup.py pyproject.toml''\<rparr>
      else \<lparr>status_code = 200, page_text = ''README.md''\<rparr>)"

text \<open>A remote side that answers every request with status 404.\<close>

definition down_fetch :: fetcher where
  "down_fetch u = \<lparr>status_code = 404, page_text = ''Not Found''\<rparr>"

text \<open>A remote side that answers every request with the same page.\<close>

definition serve :: "string \<Rightarrow> fetcher" where
  "serve page u = \<lparr>status_code = 200, page_text = page\<rparr>"

text \<open>Metadata pages, with the quotes escaped as the metadata service shows them.\<close>

definition one_block_page :: string where
  "one_block_page =
     ''&#34;project_urls&#34;: {&#34;Homepage&#34;: &#34;https://github.com/a/b&#34;}''"

definition two_block_page :: string where
  "two_block_page = one_block_page
     @ '', &#34;project_urls&#34;: {&#34;Homepage&#34;: &#34;https://github.com/c/d&#34;}''"

definition three_link_page :: string where
  "three_link_page =
     ''&#34;project_urls&#34;: {&#34;Homepage&#34;: &#34;https://github.com/a/b&#34;, ''
     @ ''&#34;Old Homepage&#34;: &#34;https://github.com/a/c&#34;, ''
     @ ''&#34;Repository&#34;: &#34;https://github.com/a/d&#34;}''"

definition repeated_link_page :: string where
  "repeated_link_page =
     ''&#34;project_urls&#34;: {&#34;Homepage&#34;: &#34;https://github.com/a/b&#34;, ''
     @ ''&#34;Old Homepage&#34;: &#34;https://github.com/a/c&#34;, ''
     @ ''&#34;Repository&#34;: &#34;https://github.com/a/b&#34;}''"

definition digit_page :: string where
  "digit_page =
     ''&#34;project_urls&#34;: {&#34;Homepage&#34;: &#34;https://github.com/user42/proj&#34;}''"

text \<open>
  A small remote dataset: the listing has the projects \<^verbatim>\<open>b\<close> and \<^verbatim>\<open>e-f\<close>; the
  first names one hosting link twice, the second names two links, of which the
  second's page mentions \<^verbatim>\<open>pyproject.toml\<close>.
\<close>

definition sample_fetch :: fetcher where
  "sample_fetch u =
     (if u = pydigger_link
      then \<lparr>status_code = 200,
            page_text = ''<td><a href='' @ [CHR 0x22] @ ''/pypi/b'' @ [CHR 0x22] @ ''>b</a></td>''
              @ ''<td><a href='' @ [CHR 0x22] @ ''/pypi/e-f'' @ [CHR 0x22] @ ''>e-f</a></td>''\<rparr>
      else if u = ''https://pydigger.com/pypi/b''
      then \<lparr>status_code = 200,
            page_text = ''project_urls&#34;: {&#34;Homepage&#34;: &#34;https://github.com/a/b&#34;, ''
              @ ''&#34;Repository&#34;: &#34;https://github.com/a/b&#34;}''\<rparr>
      else if u = ''https://pydigger.com/pypi/e-f''
      then \<lparr>status_code = 200,
            page_text = ''project_urls&#34;: {&#34;Homepage&#34;: &#34;https://github.com/e/f&#34;, ''
              @ ''&#34;Repository&#34;: &#34;https://github.com/e/f.git&#34;}''\<rparr>
      else if u = ''https://github.com/a/b''
      then \<lparr>status_code = 200, page_text = ''<a>setup.py</a>''\<rparr>
      else if u = ''https://github.com/e/f''
      then \<lparr>status_code = 200, page_text = ''setup.py README.md''\<rparr>
      else if u = ''https://github.com/e/f.git''
      then \<lparr>status_code = 200, page_text = ''setup.py pyproject.toml''\<rparr>
      else \<lparr>status_code = 404, page_text = ''Not Found''\<rparr>)"

text \<open>
  A log file: one link on a line of its own, ended by \<^verbatim>\<open>\r\n\<close>, and one link as a
  part of a longer word.
\<close>

definition sample_blob :: string where
  "sample_blob =
     ''Results 2024-08-11 09:00:00.000001 :'' @ [LF] @ ''https://github.com/a/b'' @ [CR, LF]
       @ ''see https://github.com/c/d/tree'' @ [LF]"

text \<open>The same log file after \<^verbatim>\<open>https://github.com/e/f\<close> was reported too.\<close>

definition full_blob :: string where
  "full_blob = sample_blob @ ''https://github.com/e/f'' @ [LF]"

section \<open>Properties\<close>

subsection \<open>The probes are stable filters\<close>

lemma takeWhile_no_char: "takeWhile no_char s = []"
  by (cases s) (simp_all add: no_char_def)

lemma match_at_literal:
  "literal_pattern lit s = (if prefix lit s then Some (length lit) else None)"
  by (simp add: literal_pattern_def match_at_def takeWhile_no_char)

lemma finditer_literal_sublist:
  "lit \<noteq> [] \<Longrightarrow> (finditer (literal_pattern lit) s \<noteq> []) = sublist lit s"
proof (induction s)
  case Nil
  then show ?case by simp
next
  case (Cons c cs)
  then show ?case
    by (simp add: match_at_literal sublist_Cons_right)
qed

lemma finditer_literal_empty:
  "lit \<noteq> [] \<Longrightarrow> (finditer (literal_pattern lit) s = []) = (\<not> sublist lit s)"
  using finditer_literal_sublist [of lit s] by blast

lemma setup_loop_filter:
  "setup_loop fetch links acc =
     acc @ filter (\<lambda>l. status_code (fetch l) = 200
                       \<and> sublist ''setup.py'' (page_text (fetch l))) links"
  by (induction links arbitrary: acc) (simp_all add: Let_def finditer_literal_empty)

lemma toml_loop_filter:
  "toml_loop fetch links acc =
     acc @ filter (\<lambda>l. status_code (fetch l) = 200
                       \<and> \<not> sublist ''pyproject.toml'' (page_text (fetch l))) links"
  by (induction links arbitrary: acc) (simp_all add: Let_def finditer_literal_empty)

text \<open>
  C2. Each probe returns, in input order, exactly the links whose fetch has status 200
  and whose page text contains the marker (\<^verbatim>\<open>setup.py\<close>, kept when present) or does
  not contain it (\<^verbatim>\<open>pyproject.toml\<close>, kept when absent); a link whose fetch fails is
  dropped and the loop goes on. The program has these two probes.
\<close>

theorem signal_probe_stable_filter:
  "check_setup_py_in_git fetch links =
     filter (\<lambda>l. status_code (fetch l) = 200
                \<and> (sublist ''setup.py'' (page_text (fetch l)) = True)) links
   \<and> filter_toml_in_git fetch links =
     filter (\<lambda>l. status_code (fetch l) = 200
                \<and> (sublist ''pyproject.toml'' (page_text (fetch l)) = False)) links"
  by (simp add: check_setup_py_in_git_def filter_toml_in_git_def setup_loop_filter
      toml_loop_filter)

theorem signal_probe_stable_filter_witness:
  "check_setup_py_in_git abc_fetch
     [''https://github.com/a/A'', ''https://github.com/b/B'', ''https://github.com/c/C'']
   = [''https://github.com/a/A'', ''https://github.com/c/C'']
   \<and> filter_toml_in_git abc_fetch
     [''https://github.com/a/A'', ''https://github.com/b/B'', ''https://github.com/c/C'']
   = [''https://github.com/a/A'']"
  using signal_probe_stable_filter [of abc_fetch
     "[''https://github.com/a/A'', ''https://github.com/b/B'', ''https://github.com/c/C'']"]
  by (simp add: abc_fetch_def sublist_Cons_right)

subsection \<open>A failed listing fetch\<close>

text \<open>
  C8. The claim is that a listing fetch with a status other than 200 gives an empty
  list and the run goes on with no candidate. On a listing answered with 404,
  \<open>get_link_from_pdig\<close> returns \<^verbatim>\<open>None\<close>, and \<open>main\<close> stops with a \<^verbatim>\<open>TypeError\<close> when
  it iterates over that value; nothing is read from or written to the log file.
\<close>

theorem listing_failure_returns_none:
  "get_link_from_pdig down_fetch pydigger_link = PyNone
   \<and> main down_fetch ''2024-08-12 10:11:12.131415'' [log_file_name \<mapsto> ''''] = Inl TypeError"
  by (simp add: get_link_from_pdig_def main_def down_fetch_def)

subsection \<open>Tokens of the log file\<close>

lemma isspace_CR_LF: "isspace CR" "isspace LF"
  by (simp_all add: isspace_def code_point_def)

lemma split_from_run:
  "\<not> list_ex isspace t \<Longrightarrow> split_from w (t @ s) = split_from (w @ t) s"
  by (induction t arbitrary: w) simp_all

lemma split_from_space:
  "isspace c \<Longrightarrow> split_from w (a @ c # b) = split_from w a @ split_from [] b"
  by (induction a arbitrary: w) simp_all

lemma split_append_space:
  "isspace c \<Longrightarrow> split (a @ c # b) = split a @ split b"
  by (simp add: split_def split_from_space)

text \<open>The translation of line endings changes whitespace only, so no token.\<close>

lemma split_from_universal_newlines:
  "split_from w (universal_newlines s) = split_from w s"
  by (induction s arbitrary: w rule: universal_newlines.induct)
     (simp_all add: isspace_CR_LF)

lemma split_universal_newlines: "split (universal_newlines s) = split s"
  by (simp add: split_def split_from_universal_newlines)

lemma is_token_shift:
  assumes "is_token s t" "isspace c"
  shows "is_token (u @ c # s) t"
proof -
  from assms(1) obtain pre post where
    t: "t \<noteq> []" "\<not> list_ex isspace t" and
    s: "s = pre @ t @ post" and
    pre: "pre = [] \<or> isspace (last pre)" and
    post: "post = [] \<or> isspace (hd post)"
    by (auto simp: is_token_def)
  have "u @ c # s = (u @ c # pre) @ t @ post" using s by simp
  moreover have "isspace (last (u @ c # pre))" using pre assms(2) by auto
  ultimately show ?thesis using t post unfolding is_token_def by blast
qed

lemma split_from_tokens:
  "t \<in> set (split_from w s) \<Longrightarrow> \<not> list_ex isspace w \<Longrightarrow> is_token (w @ s) t"
proof (induction s arbitrary: w)
  case Nil
  then have "t = w" "w \<noteq> []" by (auto split: if_splits)
  then show ?case using Nil.prems(2)
    unfolding is_token_def by (intro conjI exI[of _ "[]"]) auto
next
  case (Cons c cs)
  show ?case
  proof (cases "isspace c")
    case True
    show ?thesis
    proof (cases "t = w \<and> w \<noteq> []")
      case True
      have "w @ c # cs = [] @ t @ (c # cs)" using True by simp
      then show ?thesis using True \<open>isspace c\<close> Cons.prems(2)
        unfolding is_token_def by (metis list.sel(1))
    next
      case False
      then have "t \<in> set (split_from [] cs)"
        using Cons.prems(1) \<open>isspace c\<close> by (auto split: if_splits)
      then have "is_token ([] @ cs) t" by (rule Cons.IH) simp
      then show ?thesis using is_token_shift \<open>isspace c\<close> by simp
    qed
  next
    case False
    then have "t \<in> set (split_from (w @ [c]) cs)" using Cons.prems(1) by simp
    then have "is_token ((w @ [c]) @ cs) t"
      by (rule Cons.IH) (use False Cons.prems(2) in simp)
    then show ?thesis by simp
  qed
qed

lemma token_in_split:
  assumes "is_token s t"
  shows "t \<in> set (split s)"
proof -
  from assms obtain pre post where
    t: "t \<noteq> []" "\<not> list_ex isspace t" and
    s: "s = pre @ t @ post" and
    pre: "pre = [] \<or> isspace (last pre)" and
    post: "post = [] \<or> isspace (hd post)"
    by (auto simp: is_token_def)
  have tail: "t \<in> set (split_from [] (t @ post))"
  proof (cases post)
    case Nil
    then show ?thesis using t split_from_run [of t "[]" "[]"] by simp
  next
    case (Cons c p)
    then have "isspace c" using post by simp
    then show ?thesis using t Cons split_from_run [of t "[]" "c # p"] by simp
  qed
  show ?thesis
  proof (cases "pre = []")
    case True
    then show ?thesis using tail s by (simp add: split_def)
  next
    case False
    then obtain p c where pc: "pre = p @ [c]" by (metis rev_exhaust)
    then have "isspace c" using pre by simp
    then have "split s = split p @ split (t @ post)"
      using s pc split_append_space [of c p "t @ post"] by simp
    then show ?thesis using tail by (simp add: split_def)
  qed
qed

lemma split_tokens: "t \<in> set (split s) \<longleftrightarrow> is_token s t"
  using split_from_tokens [of t "[]" s] token_in_split [of s t]
  by (auto simp: split_def)

lemma logged_loop_filter:
  "logged_loop in_str cands acc = acc @ filter (\<lambda>c. c \<notin> set (split in_str)) cands"
  by (induction cands arbitrary: acc) simp_all

lemma filterout_logged_filter:
  "fs name = Some blob \<Longrightarrow>
   filterout_logged fs name cands = Inr (filter (\<lambda>c. c \<notin> set (split blob)) cands)"
  by (simp add: filterout_logged_def read_file_def logged_loop_filter split_universal_newlines)

text \<open>
  C3. For a log file that exists, \<open>filterout_logged\<close> returns, in input order, exactly
  the candidates that are not a token of the whole content: a candidate equal to a
  token is removed, every other one is kept, also one that occurs only as a part of a
  longer token.
\<close>

theorem history_filter_token_exact:
  "fs name = Some blob \<Longrightarrow>
   filterout_logged fs name cands = Inr (filter (\<lambda>c. \<not> is_token blob c) cands)"
  by (simp add: filterout_logged_filter split_tokens)

theorem history_filter_token_exact_witness:
  "[log_file_name \<mapsto> sample_blob] log_file_name = Some sample_blob
   \<and> filterout_logged [log_file_name \<mapsto> sample_blob] log_file_name
       [''https://github.com/a/b'', ''https://github.com/c/d'', ''https://github.com/e/f'']
     = Inr [''https://github.com/c/d'', ''https://github.com/e/f'']
   \<and> is_token sample_blob ''https://github.com/a/b''
   \<and> \<not> is_token sample_blob ''https://github.com/c/d''
   \<and> sublist ''https://github.com/c/d'' sample_blob"
  using history_filter_token_exact [of "[log_file_name \<mapsto> sample_blob]" log_file_name
       sample_blob
       "[''https://github.com/a/b'', ''https://github.com/c/d'', ''https://github.com/e/f'']"]
  by (simp add: split_tokens [symmetric] split_def sample_blob_def isspace_def code_point_def
      sublist_Cons_right)

subsection \<open>What a run leaves in the log file\<close>

lemma join_lines:
  "xs \<noteq> [] \<Longrightarrow> join [LF] xs @ [LF] = concat (map (\<lambda>c. c @ [LF]) xs)"
  by (induction "[LF]" xs rule: join.induct) simp_all

lemma main_result:
  "main fetch utc_now fs = Inr r \<Longrightarrow>
   (\<exists>blob. fs log_file_name = Some blob)
   \<and> snd r = append_file fs log_file_name (output_lines utc_now (fst r))"
  by (auto simp: main_def filterout_logged_def read_file_def Let_def
      split: py_value.splits sum.splits option.splits)

lemma main_reaches_append:
  "main fetch utc_now fs = Inr r \<Longrightarrow>
     status_code (fetch pydigger_link) = 200 \<and> (\<exists>blob. fs log_file_name = Some blob)"
  by (auto simp: main_def get_link_from_pdig_def filterout_logged_def read_file_def Let_def
      split: py_value.splits sum.splits option.splits if_splits)

text \<open>A run whose listing fetch succeeds and whose log file exists comes to its end.\<close>

lemma main_runs:
  assumes "status_code (fetch pydigger_link) = 200" "fs log_file_name = Some blob"
  shows "main fetch utc_now fs =
     Inr (filter (\<lambda>c. c \<notin> set (split blob)) (candidates fetch),
          fs(log_file_name \<mapsto> blob @ output_lines utc_now
               (filter (\<lambda>c. c \<notin> set (split blob)) (candidates fetch))))"
  using assms
  by (simp add: main_def candidates_def get_link_from_pdig_def Let_def
      filterout_logged_filter append_file_def)

lemmas pdig_eval =
  get_link_from_pdig_def pydigger_link_def findall_group_def pypi_pattern_def pypi_lit_def
  match_at_def pypi_class_def word_char_def ascii_letter_def ascii_digit_def code_point_def

lemmas json_eval =
  get_link_from_json_def serve_def get_json_pattern_def not_brace_def match_at_def
  json_step_def findall_key_def findall_group_def key_pattern_def key_lit_def quot_def
  git_prefix_def git_class_def ascii_letter_def code_point_def

lemma sample_listing:
  "get_link_from_pdig sample_fetch pydigger_link
     = PyList [''https://pydigger.com/pypi/b'', ''https://pydigger.com/pypi/e-f'']"
  by (simp add: sample_fetch_def pdig_eval)

lemma sample_links:
  "get_link_from_json sample_fetch ''https://pydigger.com/pypi/b'' = [''https://github.com/a/b'']"
  "get_link_from_json sample_fetch ''https://pydigger.com/pypi/e-f''
     = [''https://github.com/e/f'', ''https://github.com/e/f.git'']"
  by (simp_all add: sample_fetch_def pydigger_link_def json_eval)

lemma sample_pages:
  "sample_fetch ''https://github.com/a/b''
     = \<lparr>status_code = 200, page_text = ''<a>setup.py</a>''\<rparr>"
  "sample_fetch ''https://github.com/e/f''
     = \<lparr>status_code = 200, page_text = ''setup.py README.md''\<rparr>"
  "sample_fetch ''https://github.com/e/f.git''
     = \<lparr>status_code = 200, page_text = ''setup.py pyproject.toml''\<rparr>"
  by (simp_all add: sample_fetch_def pydigger_link_def)

lemma sample_candidates:
  "candidates sample_fetch = [''https://github.com/a/b'', ''https://github.com/e/f'']"
  by (simp add: candidates_def sample_listing sample_links check_setup_py_in_git_def
      filter_toml_in_git_def setup_loop_filter toml_loop_filter sublist_Cons_right
      sample_pages)

lemma sample_blob_tokens:
  "split sample_blob = [''Results'', ''2024-08-11'', ''09:00:00.000001'', '':'',
     ''https://github.com/a/b'', ''see'', ''https://github.com/c/d/tree'']"
  by (simp add: split_def sample_blob_def isspace_def code_point_def)

text \<open>
  C4. The append step leaves the content the log file had as a prefix of the new
  content. What follows it is four line feeds, the line \<^verbatim>\<open>Results <timestamp> :\<close>, and
  each link of the final list on a line of its own (one empty line when the list is
  empty). No other file changes, and the append step of a run of \<open>main\<close> is this one, on
  the list the run returns.
\<close>

theorem history_append_block:
  assumes "fs log_file_name = Some blob"
  shows "append_file fs log_file_name (output_lines utc_now final) log_file_name =
           Some (blob @ [LF, LF, LF, LF] @ (''Results '' @ utc_now @ '' :'') @ [LF]
                   @ (if final = [] then [LF] else concat (map (\<lambda>c. c @ [LF]) final)))
         \<and> (\<forall>name. name \<noteq> log_file_name \<longrightarrow>
               append_file fs log_file_name (output_lines utc_now final) name = fs name)
         \<and> (\<forall>fetch r. main fetch utc_now fs = Inr r \<longrightarrow>
               snd r = append_file fs log_file_name (output_lines utc_now (fst r)))"
proof (intro conjI allI impI)
  show "append_file fs log_file_name (output_lines utc_now final) log_file_name =
           Some (blob @ [LF, LF, LF, LF] @ (''Results '' @ utc_now @ '' :'') @ [LF]
                   @ (if final = [] then [LF] else concat (map (\<lambda>c. c @ [LF]) final)))"
    using assms join_lines [of final] by (simp add: append_file_def output_lines_def)
next
  fix name assume "name \<noteq> log_file_name"
  then show "append_file fs log_file_name (output_lines utc_now final) name = fs name"
    by (simp add: append_file_def)
next
  fix fetch r assume "main fetch utc_now fs = Inr r"
  then show "snd r = append_file fs log_file_name (output_lines utc_now (fst r))"
    using main_result by blast
qed

theorem history_append_block_witness:
  "[log_file_name \<mapsto> sample_blob] log_file_name = Some sample_blob
   \<and> append_file [log_file_name \<mapsto> sample_blob] log_file_name
       (output_lines ''2024-08-12 10:11:12.131415''
          [''https://github.com/e/f'', ''https://github.com/g/h'']) log_file_name
     = Some (sample_blob @ [LF, LF, LF, LF] @ ''Results 2024-08-12 10:11:12.131415 :'' @ [LF]
               @ ''https://github.com/e/f'' @ [LF] @ ''https://github.com/g/h'' @ [LF])
   \<and> append_file [log_file_name \<mapsto> sample_blob] log_file_name
       (output_lines ''2024-08-12 10:11:12.131415''
          [''https://github.com/e/f'', ''https://github.com/g/h'']) ''setup.py'' = None
   \<and> main sample_fetch ''2024-08-12 10:11:12.131415'' [log_file_name \<mapsto> sample_blob]
     = Inr ([''https://github.com/e/f''],
            append_file [log_file_name \<mapsto> sample_blob] log_file_name
              (output_lines ''2024-08-12 10:11:12.131415'' [''https://github.com/e/f'']))"
proof -
  have ok: "status_code (sample_fetch pydigger_link) = 200"
    by (simp add: sample_fetch_def)
  have blob: "[log_file_name \<mapsto> sample_blob] log_file_name = Some sample_blob"
    by simp
  have run: "\<exists>fs'. main sample_fetch ''2024-08-12 10:11:12.131415''
      [log_file_name \<mapsto> sample_blob] = Inr ([''https://github.com/e/f''], fs')"
    using main_runs [of sample_fetch "[log_file_name \<mapsto> sample_blob]" sample_blob
        "''2024-08-12 10:11:12.131415''"] ok
    by (simp add: sample_candidates sample_blob_tokens)
  have other: "''setup.py'' \<noteq> log_file_name"
    by (simp add: log_file_name_def)
  from history_append_block [of "[log_file_name \<mapsto> sample_blob]" sample_blob
      "''2024-08-12 10:11:12.131415''"
      "[''https://github.com/e/f'', ''https://github.com/g/h'']"] blob run other
  show ?thesis by fastforce
qed

text \<open>
  C10. A run whose listing fetch succeeds and whose log file exists reaches the append
  step, and there the log file grows by the block of the run: the new content is the
  old one followed by a non-empty block. When the final list is empty, the block is the
  four line feeds, the \<^verbatim>\<open>Results\<close> line and one empty line.
\<close>

theorem empty_result_still_appended:
  assumes "status_code (fetch pydigger_link) = 200" "fs log_file_name = Some blob"
  shows "\<exists>final fs'. main fetch utc_now fs = Inr (final, fs')
           \<and> fs' log_file_name = Some (blob @ output_lines utc_now final)
           \<and> length blob < length (blob @ output_lines utc_now final)
           \<and> (final = [] \<longrightarrow>
                output_lines utc_now final
                  = [LF, LF, LF, LF] @ ''Results '' @ utc_now @ '' :'' @ [LF] @ [LF])"
  using main_runs [of fetch fs blob utc_now] assms by (simp add: output_lines_def)

theorem empty_result_still_appended_witness:
  "status_code (sample_fetch pydigger_link) = 200
   \<and> [log_file_name \<mapsto> full_blob] log_file_name = Some full_blob
   \<and> (\<exists>fs'. main sample_fetch ''2024-08-12 10:11:12.131415'' [log_file_name \<mapsto> full_blob]
               = Inr ([], fs')
          \<and> fs' log_file_name
               = Some (full_blob @ [LF, LF, LF, LF] @ ''Results 2024-08-12 10:11:12.131415 :''
                         @ [LF, LF])
          \<and> length full_blob <
              length (full_blob @ [LF, LF, LF, LF] @ ''Results 2024-08-12 10:11:12.131415 :''
                         @ [LF, LF]))"
proof -
  have ok: "status_code (sample_fetch pydigger_link) = 200"
    by (simp add: sample_fetch_def)
  have blob: "[log_file_name \<mapsto> full_blob] log_file_name = Some full_blob"
    by simp
  have logged: "split full_blob = split sample_blob @ [''https://github.com/e/f'']"
    using split_append_space [of LF "sample_blob @ ''https://github.com/e/f''" "[]"]
      split_append_space [of LF "butlast sample_blob" "''https://github.com/e/f''"]
      split_append_space [of LF "butlast sample_blob" "[]"]
    by (simp add: full_blob_def sample_blob_def isspace_CR_LF split_def isspace_def
        code_point_def)
  have run: "main sample_fetch ''2024-08-12 10:11:12.131415'' [log_file_name \<mapsto> full_blob]
     = Inr ([], [log_file_name \<mapsto> full_blob @ output_lines ''2024-08-12 10:11:12.131415'' []])"
    using main_runs [of sample_fetch "[log_file_name \<mapsto> full_blob]" full_blob
        "''2024-08-12 10:11:12.131415''"] ok
    by (simp add: sample_candidates logged sample_blob_tokens)
  from empty_result_still_appended [of sample_fetch "[log_file_name \<mapsto> full_blob]"
      full_blob "''2024-08-12 10:11:12.131415''"] run ok
  show ?thesis by (simp add: output_lines_def)
qed

subsection \<open>The links extracted from a metadata page\<close>

lemma finditer_elem:
  "x \<in> set (finditer m s) \<Longrightarrow> \<exists>t n. m t = Some n \<and> 0 < n \<and> x = take n t"
proof (induction m s rule: finditer.induct)
  case (1 m)
  then show ?case by simp
next
  case (2 m c cs)
  then show ?case
    by (cases "m (c # cs)") (auto split: if_splits)
qed

lemma match_at_take:
  assumes "match_at lit cls least t = Some n"
  shows "\<exists>run. take n t = lit @ run \<and> list_all cls run \<and> least \<le> length run"
proof -
  from assms have p: "prefix lit t"
    and l: "least \<le> length (takeWhile cls (drop (length lit) t))"
    and n: "n = length lit + length (takeWhile cls (drop (length lit) t))"
    by (auto simp: match_at_def Let_def split: if_splits)
  from p obtain r where t: "t = lit @ r" by (auto simp: prefix_def)
  have "take n t = lit @ take (length (takeWhile cls r)) r" using n t by simp
  also have "take (length (takeWhile cls r)) r = takeWhile cls r"
    by (rule takeWhile_eq_take [symmetric])
  finally have "take n t = lit @ takeWhile cls r" .
  moreover have "list_all cls (takeWhile cls r)"
    by (simp add: list_all_iff) (meson set_takeWhileD)
  ultimately show ?thesis using l t by auto
qed

lemma findall_key_shape:
  assumes "x \<in> set (findall_key key s)"
  shows "hosting_shape x"
proof -
  from assms obtain y where y: "y \<in> set (finditer (key_pattern key) s)"
    and x: "x = drop (length (key_lit key)) y"
    by (auto simp: findall_key_def findall_group_def)
  from finditer_elem [OF y] obtain t n where
    m: "key_pattern key t = Some n" and yt: "y = take n t" by blast
  from match_at_take [OF m [unfolded key_pattern_def]] obtain run where
    "take n t = (key_lit key @ git_prefix) @ run" "list_all git_class run" "1 \<le> length run"
    by blast
  then show ?thesis using x yt unfolding hosting_shape_def
    by (intro exI [of _ run]) auto
qed

lemma json_step_subset:
  "set (json_step chunk acc) \<subseteq>
     set acc \<union> set (findall_key ''Homepage'' chunk) \<union> set (findall_key ''Repository'' chunk)"
  by (auto simp: json_step_def Let_def)

lemma json_loop_shape:
  "\<forall>x \<in> set acc. hosting_shape x \<Longrightarrow> \<forall>x \<in> set (json_loop chunks acc). hosting_shape x"
proof (induction chunks arbitrary: acc)
  case Nil
  then show ?case by simp
next
  case (Cons chunk chunks)
  have "\<forall>x \<in> set (json_step chunk acc). hosting_shape x"
    using json_step_subset [of chunk acc] Cons.prems findall_key_shape by blast
  then show ?case using Cons.IH by simp
qed

lemma get_link_from_json_shape:
  "l \<in> set (get_link_from_json fetch site) \<Longrightarrow> hosting_shape l"
  using json_loop_shape [of "[]"] by (auto simp: get_link_from_json_def Let_def split: if_splits)

lemma git_class_cases:
  "git_class c \<Longrightarrow>
     ascii_letter c \<or> c = CHR ''-'' \<or> c = CHR ''_'' \<or> c = CHR ''/'' \<or> c = CHR ''.''"
  unfolding git_class_def
  by (elim disjE) (simp_all add: ascii_letter_def code_point_def)

lemma letter_not_digit_space: "ascii_letter c \<Longrightarrow> \<not> ascii_digit c \<and> \<not> isspace c"
  unfolding ascii_letter_def ascii_digit_def isspace_def Let_def by linarith

lemma punct_not_digit_space:
  "c = CHR ''-'' \<or> c = CHR ''_'' \<or> c = CHR ''/'' \<or> c = CHR ''.'' \<Longrightarrow>
     \<not> ascii_digit c \<and> \<not> isspace c"
  by (elim disjE) (simp_all add: ascii_digit_def isspace_def code_point_def)

lemma git_class_chars:
  "git_class c \<Longrightarrow>
     (ascii_letter c \<or> c = CHR ''-'' \<or> c = CHR ''_'' \<or> c = CHR ''/'' \<or> c = CHR ''.'')
     \<and> \<not> ascii_digit c \<and> \<not> isspace c"
  using git_class_cases [of c] letter_not_digit_space [of c] punct_not_digit_space [of c]
  by blast

text \<open>
  C9. Every link \<open>get_link_from_json\<close> returns is \<^verbatim>\<open>https://git\<close> followed by one or
  more characters, each a letter, a hyphen, an underscore, a slash or a dot, and none a
  digit: the \<^verbatim>\<open>d\<close> of the class is the letter.
\<close>

theorem extracted_link_shape:
  assumes "l \<in> set (get_link_from_json fetch site)"
  shows "\<exists>rest. l = ''https://git'' @ rest \<and> rest \<noteq> []
           \<and> (\<forall>c \<in> set rest.
                 (ascii_letter c \<or> c = CHR ''-'' \<or> c = CHR ''_'' \<or> c = CHR ''/'' \<or> c = CHR ''.'')
                 \<and> \<not> ascii_digit c)"
proof -
  from get_link_from_json_shape [OF assms] obtain rest where
    "l = git_prefix @ rest" "rest \<noteq> []" "list_all git_class rest"
    by (auto simp: hosting_shape_def)
  then show ?thesis using git_class_chars
    by (intro exI [of _ rest]) (auto simp: git_prefix_def list_all_iff)
qed

theorem extracted_link_shape_witness:
  "get_link_from_json (serve digit_page) ''https://pydigger.com/pypi/proj''
     = [''https://github.com/user'']
   \<and> (\<exists>rest. ''https://github.com/user'' = ''https://git'' @ rest \<and> rest \<noteq> []
           \<and> (\<forall>c \<in> set rest.
                 (ascii_letter c \<or> c = CHR ''-'' \<or> c = CHR ''_'' \<or> c = CHR ''/'' \<or> c = CHR ''.'')
                 \<and> \<not> ascii_digit c))"
proof -
  have links: "get_link_from_json (serve digit_page) ''https://pydigger.com/pypi/proj''
     = [''https://github.com/user'']"
    by (simp add: digit_page_def json_eval)
  then have "''https://github.com/user''
      \<in> set (get_link_from_json (serve digit_page) ''https://pydigger.com/pypi/proj'')"
    by simp
  from extracted_link_shape [OF this] links show ?thesis by blast
qed

text \<open>
  C5. The claim is that only the first \<^verbatim>\<open>project_urls\<close> block of a page is used. The
  loop over the matches has no \<^verbatim>\<open>break\<close>: two pages with the same first block give
  different lists, the second page adding the link of its second block.
\<close>

theorem every_block_is_used:
  "first_block one_block_page = first_block two_block_page
   \<and> get_link_from_json (serve one_block_page) ''https://pydigger.com/pypi/b''
       = [''https://github.com/a/b'']
   \<and> get_link_from_json (serve two_block_page) ''https://pydigger.com/pypi/b''
       = [''https://github.com/a/b'', ''https://github.com/c/d'']"
  by (simp add: first_block_def one_block_page_def two_block_page_def json_eval)

text \<open>
  C6. The claim is that at most two links are returned. \<^verbatim>\<open>findall\<close> gives every match of
  a key in the block, and a key that ends in \<^verbatim>\<open>Homepage\<close> matches too: a page with one
  block gives three links.
\<close>

theorem three_links_from_one_block:
  "get_link_from_json (serve three_link_page) ''https://pydigger.com/pypi/b''
     = [''https://github.com/a/b'', ''https://github.com/a/c'', ''https://github.com/a/d'']
   \<and> length (get_link_from_json (serve three_link_page) ''https://pydigger.com/pypi/b'') = 3"
  by (simp add: three_link_page_def json_eval)

text \<open>
  C7. The claim is that a returned list has no string twice, the Repository value being
  added only when it differs from the Homepage value. The program compares the two lists
  of matches, not the strings: with two Homepage matches, a Repository value equal to
  the first one is added again.
\<close>

theorem repository_equal_to_homepage_kept:
  "get_link_from_json (serve repeated_link_page) ''https://pydigger.com/pypi/b''
     = [''https://github.com/a/b'', ''https://github.com/a/c'', ''https://github.com/a/b'']
   \<and> \<not> distinct (get_link_from_json (serve repeated_link_page) ''https://pydigger.com/pypi/b'')"
  by (simp add: repeated_link_page_def json_eval)

subsection \<open>Running twice\<close>

lemma hosting_shape_token:
  assumes "hosting_shape c"
  shows "c \<noteq> [] \<and> \<not> list_ex isspace c"
proof -
  from assms obtain rest where c: "c = git_prefix @ rest" and r: "list_all git_class rest"
    by (auto simp: hosting_shape_def)
  have "\<not> list_ex isspace git_prefix"
    by (simp add: git_prefix_def isspace_def code_point_def)
  moreover have "\<not> list_ex isspace rest"
    using r git_class_chars by (auto simp: list_all_iff list_ex_iff)
  ultimately show ?thesis using c by (simp add: git_prefix_def)
qed

lemma scan_loop_shape:
  "\<forall>x \<in> set acc. hosting_shape x \<Longrightarrow> \<forall>x \<in> set (scan_loop fetch links acc). hosting_shape x"
proof (induction links arbitrary: acc)
  case Nil
  then show ?case by simp
next
  case (Cons link links)
  have "\<forall>x \<in> set (acc @ get_link_from_json fetch link). hosting_shape x"
    using Cons.prems get_link_from_json_shape by auto
  then have "\<forall>x \<in> set (scan_loop fetch links (acc @ get_link_from_json fetch link)).
      hosting_shape x"
    by (rule Cons.IH)
  moreover have "\<forall>x \<in> set (scan_loop fetch links acc). hosting_shape x"
    using Cons.prems by (rule Cons.IH)
  ultimately show ?case by (simp add: Let_def)
qed

lemma candidates_shape: "c \<in> set (candidates fetch) \<Longrightarrow> hosting_shape c"
  using scan_loop_shape [of "[]" fetch]
  by (auto simp: candidates_def check_setup_py_in_git_def filter_toml_in_git_def
      setup_loop_filter toml_loop_filter split: py_value.splits)

lemma split_word:
  "w \<noteq> [] \<Longrightarrow> \<not> list_ex isspace w \<Longrightarrow> split_from [] (w @ LF # s) = w # split_from [] s"
  using split_from_run [of w "[]" "LF # s"] by (simp add: isspace_CR_LF)

text \<open>The lines of a block are its tokens, when no link is empty or has whitespace.\<close>

lemma split_join_lines:
  "\<forall>x \<in> set xs. x \<noteq> [] \<and> \<not> list_ex isspace x \<Longrightarrow> split (join [LF] xs @ [LF]) = xs"
proof (induction "[LF]" xs rule: join.induct)
  case 1
  then show ?case by (simp add: split_def isspace_CR_LF)
next
  case (2 x)
  then show ?case using split_word [of x "[]"] by (simp add: split_def)
next
  case (3 x y ys)
  then have "split (join [LF] (y # ys) @ [LF]) = y # ys" by simp
  then show ?case using 3 split_word [of x "join [LF] (y # ys) @ [LF]"]
    by (simp add: split_def)
qed

lemma split_output_lines:
  assumes "\<forall>x \<in> set xs. x \<noteq> [] \<and> \<not> list_ex isspace x"
  shows "split (blob @ output_lines utc_now xs) =
           split blob @ split ([LF, LF, LF] @ ''Results '' @ utc_now @ '' :'') @ xs"
proof -
  let ?h = "[LF, LF, LF] @ ''Results '' @ utc_now @ '' :''"
  have "blob @ output_lines utc_now xs = blob @ LF # (?h @ LF # (join [LF] xs @ [LF]))"
    by (simp add: output_lines_def)
  then have "split (blob @ output_lines utc_now xs) =
      split blob @ split (?h @ LF # (join [LF] xs @ [LF]))"
    using split_append_space [of LF blob] by (simp add: isspace_CR_LF)
  also have "split (?h @ LF # (join [LF] xs @ [LF])) = split ?h @ split (join [LF] xs @ [LF])"
    by (rule split_append_space) (simp add: isspace_CR_LF)
  finally show ?thesis using split_join_lines [OF assms] by simp
qed

text \<open>
  C1. When a run of \<open>main\<close> comes to its end, so that its final list is appended to the
  log file, a second run on the same remote dataset and on the log file the first run
  left comes to its end too, and its final list is empty, whatever the two timestamps.
\<close>

theorem second_run_reports_nothing:
  assumes "main fetch utc_now1 fs = Inr (final1, fs1)"
  shows "\<exists>fs2. main fetch utc_now2 fs1 = Inr ([], fs2)"
proof -
  from main_reaches_append [OF assms] obtain blob where
    ok: "status_code (fetch pydigger_link) = 200" and blob: "fs log_file_name = Some blob"
    by blast
  let ?new = "filter (\<lambda>c. c \<notin> set (split blob)) (candidates fetch)"
  have run1: "final1 = ?new" "fs1 = fs(log_file_name \<mapsto> blob @ output_lines utc_now1 ?new)"
    using main_runs [of fetch fs blob utc_now1] ok blob assms by simp_all
  have shape: "\<forall>x \<in> set ?new. x \<noteq> [] \<and> \<not> list_ex isspace x"
    using candidates_shape hosting_shape_token by auto
  have tokens: "set (split (blob @ output_lines utc_now1 ?new)) \<supseteq> set (split blob) \<union> set ?new"
    using split_output_lines [OF shape, of blob utc_now1] by auto
  have "filter (\<lambda>c. c \<notin> set (split (blob @ output_lines utc_now1 ?new))) (candidates fetch) = []"
    using tokens by (auto simp: filter_empty_conv)
  moreover have "fs1 log_file_name = Some (blob @ output_lines utc_now1 ?new)"
    using run1 by simp
  ultimately show ?thesis
    using main_runs [of fetch fs1 "blob @ output_lines utc_now1 ?new" utc_now2] ok by simp
qed

theorem second_run_reports_nothing_witness:
  "main sample_fetch ''2024-08-12 10:11:12.131415'' [log_file_name \<mapsto> sample_blob]
     = Inr ([''https://github.com/e/f''],
            [log_file_name \<mapsto> sample_blob @ output_lines ''2024-08-12 10:11:12.131415''
               [''https://github.com/e/f'']])
   \<and> (\<exists>fs2. main sample_fetch ''2024-08-13 10:11:12.131415''
          [log_file_name \<mapsto> sample_blob @ output_lines ''2024-08-12 10:11:12.131415''
             [''https://github.com/e/f'']]
        = Inr ([], fs2))"
proof -
  have ok: "status_code (sample_fetch pydigger_link) = 200"
    by (simp add: sample_fetch_def)
  have run1: "main sample_fetch ''2024-08-12 10:11:12.131415'' [log_file_name \<mapsto> sample_blob]
     = Inr ([''https://github.com/e/f''],
            [log_file_name \<mapsto> sample_blob @ output_lines ''2024-08-12 10:11:12.131415''
               [''https://github.com/e/f'']])"
    using main_runs [of sample_fetch "[log_file_name \<mapsto> sample_blob]" sample_blob
        "''2024-08-12 10:11:12.131415''"] ok
    by (simp add: sample_candidates sample_blob_tokens)
  from second_run_reports_nothing [OF run1] run1 show ?thesis by blast
qed


end
